theory Spec2Isabelle
  imports Main
begin

section \<open>Strings, exceptions and the parser library\<close>

text \<open>
  The module \<^verbatim>\<open>apps/utils/lucene.py\<close> works on Python \<^verbatim>\<open>str\<close> values, which are
  sequences of Unicode code points indexed by code point. A string is therefore a
  list of code points; \<open>py\<close> turns an ASCII literal into one.
\<close>

type_synonym pystr = "nat list"

definition py :: "string \<Rightarrow> pystr" where
  "py s = map of_char s"

text \<open>Python's slice \<^verbatim>\<open>s[a:b]\<close> for non-negative bounds (it clamps, it never raises).\<close>

definition slice :: "pystr \<Rightarrow> nat \<Rightarrow> nat \<Rightarrow> pystr" where
  "slice s a b = take (b - a) (drop a s)"

definition starts_with :: "pystr \<Rightarrow> pystr \<Rightarrow> bool" where
  "starts_with p s = (take (length p) s = p)"

text \<open>\<^verbatim>\<open>s.find(sub)\<close>: the least index where \<open>sub\<close> occurs, or \<open>-1\<close>.\<close>

fun find_sub :: "pystr \<Rightarrow> pystr \<Rightarrow> nat option" where
  "find_sub sub [] = (if sub = [] then Some 0 else None)"
| "find_sub sub (c # cs) =
     (if starts_with sub (c # cs) then Some 0 else map_option Suc (find_sub sub cs))"

definition find :: "pystr \<Rightarrow> pystr \<Rightarrow> int" where
  "find s sub = (case find_sub sub s of None \<Rightarrow> - 1 | Some i \<Rightarrow> int i)"

text \<open>
  The exceptions that occur in the module. \<open>IllegalCharacterError\<close> and
  \<open>ParseSyntaxError\<close> are the parser library's two error classes and carry their
  message (\<^verbatim>\<open>str(e)\<close>); \<open>UnknownLuceneOperatorException\<close> is the application's own
  class from \<^verbatim>\<open>apps.exceptions\<close>; \<open>TypeError\<close>, \<open>AttributeError\<close> and \<open>IndexError\<close>
  are the interpreter's; \<open>OtherException\<close> stands for any further subclass of
  \<^verbatim>\<open>Exception\<close>.
\<close>

datatype exn =
    IllegalCharacterError pystr
  | ParseSyntaxError pystr
  | UnknownLuceneOperatorException
  | TypeError
  | AttributeError
  | IndexError
  | OtherException

text \<open>
  The syntax tree of the parser library, one constructor per node class, each with
  its source position. Only the attributes that the module reads are kept:
  \<^verbatim>\<open>value\<close> of a term, \<^verbatim>\<open>name\<close> and \<^verbatim>\<open>expr\<close> of a search field, \<^verbatim>\<open>children\<close> of a
  group, \<^verbatim>\<open>operands\<close> of an operation, \<^verbatim>\<open>a\<close> of a unary operator, and the two
  inclusion flags of a range. \<open>Boost\<close> is a node class for which \<open>LuceneParser\<close> has
  no \<^verbatim>\<open>parsing_boost\<close> method.
\<close>

datatype node =
    Word int pystr
  | Phrase int pystr
  | Regex int pystr
  | SearchField int pystr node
  | FieldGroup int node
  | Group int "node list"
  | Range int node node bool bool
  | Fuzzy int node
  | Proximity int node
  | Boost int node
  | AndOperation int "node list"
  | OrOperation int "node list"
  | UnknownOperation int "node list"
  | Not int node
  | Plus int node
  | Prohibit int node

text \<open>
  The parser is the third-party library \<^verbatim>\<open>luqum\<close>, imported by the module and not
  part of the repository. The development is parametric in it: \<open>parse\<close> is
  \<^verbatim>\<open>parser.parse(keyword, lexer=lexer)\<close>, which returns a tree or raises;
  \<open>str_node\<close> is \<^verbatim>\<open>str(node)\<close>; \<open>UnknownOperationResolver\<close> is the tree rewriting of
  \<^verbatim>\<open>luqum.utils.UnknownOperationResolver()\<close>.
\<close>

record luqum =
  parse :: "pystr \<Rightarrow> exn + node"
  str_node :: "node \<Rightarrow> pystr"
  UnknownOperationResolver :: "node \<Rightarrow> node"

section \<open>Constants of \<^verbatim>\<open>apps.constants\<close>\<close>

text \<open>
  The module \<^verbatim>\<open>apps/constants.py\<close> is not among the sources; each constant that
  \<^verbatim>\<open>lucene.py\<close> imports from it is taken from the specification.
\<close>

text \<open>
  Modelled from the spec: \<open>LuceneSyntaxEnum\<close>, whose kinds are the node kinds of
  section 3 that produce a field; \<open>EMPTY_TYPE\<close> is the default \<^verbatim>\<open>type = ""\<close> of a
  \<open>LuceneField\<close>.
\<close>

datatype LuceneSyntaxEnum =
    EMPTY_TYPE | SEARCH_FIELD | WORD | PHRASE | FIELD_GROUP | RANGE | FUZZY | REGEX
  | PROXIMITY | NOT | PLUS | PROHIBIT

text \<open>
  Modelled from the spec: the reserved full-text name (``e.g. \<^verbatim>\<open>"*"\<close>'', scenario S3).
\<close>

definition FULL_TEXT_SEARCH_FIELD_NAME :: pystr where
  "FULL_TEXT_SEARCH_FIELD_NAME = py ''*''"

text \<open>Modelled from the spec: the default operator \<^verbatim>\<open>"~="\<close> (sections 3 and 4.3).\<close>

definition DEFAULT_FIELD_OPERATOR :: pystr where
  "DEFAULT_FIELD_OPERATOR = py ''~=''"

text \<open>Modelled from the spec: the operator \<^verbatim>\<open>"()"\<close> of a field group (section 4.3).\<close>

definition FIELD_GROUP_OPERATOR :: pystr where
  "FIELD_GROUP_OPERATOR = py ''()''"

text \<open>Modelled from the spec: the operator \<^verbatim>\<open>"NOT"\<close> (section 3).\<close>

definition NOT_OPERATOR :: pystr where
  "NOT_OPERATOR = py ''NOT''"

text \<open>Modelled from the spec: the operator \<^verbatim>\<open>"+"\<close> (section 3).\<close>

definition PLUS_OPERATOR :: pystr where
  "PLUS_OPERATOR = py ''+''"

text \<open>Modelled from the spec: the operator \<^verbatim>\<open>"-"\<close> (section 3).\<close>

definition PROHIBIT_OPERATOR :: pystr where
  "PROHIBIT_OPERATOR = py ''-''"

text \<open>
  Modelled from the spec: the table from \<^verbatim>\<open>include_low\<close> to the opening bracket of a
  range, \<^verbatim>\<open>[\<close> inclusive and \<^verbatim>\<open>{\<close> exclusive (section 4.3).
\<close>

definition LOW_CHAR :: "bool \<Rightarrow> pystr" where
  "LOW_CHAR incl = (if incl then py ''['' else py ''{'')"

text \<open>
  Modelled from the spec: the table from \<^verbatim>\<open>include_high\<close> to the closing bracket of
  a range, \<^verbatim>\<open>]\<close> inclusive and \<^verbatim>\<open>}\<close> exclusive (section 4.3).
\<close>

definition HIGH_CHAR :: "bool \<Rightarrow> pystr" where
  "HIGH_CHAR incl = (if incl then py '']'' else py ''}'')"

text \<open>
  Modelled from the spec: \<open>WORD_RANGE_OPERATORS\<close> is the alternation
  \<^verbatim>\<open>>=|<=|>|<\<close> (section 4.3). \<open>search_WORD_RANGE_OPERATORS\<close> is
  \<^verbatim>\<open>re.search(WORD_RANGE_OPERATORS, value)\<close> followed by \<^verbatim>\<open>group(0)\<close>: at the
  leftmost \<^verbatim>\<open><\<close> or \<^verbatim>\<open>>\<close>, the two-character form if \<^verbatim>\<open>=\<close> follows.
\<close>

fun search_WORD_RANGE_OPERATORS :: "pystr \<Rightarrow> pystr option" where
  "search_WORD_RANGE_OPERATORS [] = None"
| "search_WORD_RANGE_OPERATORS (c # cs) =
     (if c = 62 \<or> c = 60
      then (case cs of [] \<Rightarrow> Some [c] | d # _ \<Rightarrow> if d = 61 then Some [c, d] else Some [c])
      else search_WORD_RANGE_OPERATORS cs)"

text \<open>
  Modelled from the spec: the bracket pairs (``opening brackets \<^verbatim>\<open>(\<close>, \<^verbatim>\<open>[\<close>, \<^verbatim>\<open>{\<close>'')
  as the dictionary from an opening bracket to its closing bracket.
\<close>

definition BRACKET_DICT :: "(nat \<times> nat) list" where
  "BRACKET_DICT = [(40, 41), (91, 93), (123, 125)]"

text \<open>Modelled from the spec: ``a small constant, typically 10''.\<close>

definition MAX_RESOLVE_TIMES :: nat where
  "MAX_RESOLVE_TIMES = 10"

section \<open>Field extraction: \<open>LuceneParser\<close>\<close>

record LuceneField =
  pos :: int
  name :: pystr
  ftype :: LuceneSyntaxEnum
  operator :: pystr
  fvalue :: pystr

text \<open>\<^verbatim>\<open>value.split(operator)[-1]\<close>: what follows the last occurrence of the separator.\<close>

function split_last :: "pystr \<Rightarrow> pystr \<Rightarrow> pystr" where
  "split_last s sep =
     (if sep = [] \<or> s = [] \<or> find_sub sep s = None then s
      else split_last (drop (the (find_sub sep s) + length sep) s) sep)"
  by pat_completeness auto
termination
  by (relation "measure (\<lambda>(s, sep). length s)") auto

declare split_last.simps [simp del]

definition parsing_word :: "int \<Rightarrow> pystr \<Rightarrow> LuceneField" where
  "parsing_word p v =
     (case search_WORD_RANGE_OPERATORS v of
        None \<Rightarrow> \<lparr>pos = p, name = FULL_TEXT_SEARCH_FIELD_NAME, ftype = WORD,
                 operator = py ''~='', fvalue = v\<rparr>
      | Some oper \<Rightarrow> \<lparr>pos = p, name = FULL_TEXT_SEARCH_FIELD_NAME, ftype = WORD,
                 operator = oper, fvalue = split_last v oper\<rparr>)"

definition parsing_phrase :: "int \<Rightarrow> pystr \<Rightarrow> LuceneField" where
  "parsing_phrase p v =
     \<lparr>pos = p, name = FULL_TEXT_SEARCH_FIELD_NAME, ftype = PHRASE,
      operator = py ''='', fvalue = v\<rparr>"

text \<open>
  A \<^verbatim>\<open>parsing_*\<close> method returns either one \<open>LuceneField\<close> or a Python list of them;
  the callers tell them apart with \<^verbatim>\<open>isinstance(_, list)\<close>, or read an attribute
  of the result, which raises \<open>AttributeError\<close> on a list.
\<close>

datatype walked = One LuceneField | Many "LuceneField list"

fun fields_of :: "walked \<Rightarrow> LuceneField list" where
  "fields_of (One f) = [f]"
| "fields_of (Many fs) = fs"

text \<open>
  \<open>get_method\<close> is \<^verbatim>\<open>_get_method\<close>: the dispatch on the node's class name to the
  \<^verbatim>\<open>parsing_*\<close> method, whose body is the right-hand side. \<open>get_methods\<close> is the loop
  shared by \<^verbatim>\<open>parsing_group\<close>, \<^verbatim>\<open>parsing_oroperation\<close> and \<^verbatim>\<open>parsing_andoperation\<close>:
  it walks the children from left to right, extends the list by a list result and
  appends a single field, and stops at the first exception.
\<close>

fun get_method :: "luqum \<Rightarrow> node \<Rightarrow> exn + walked"
  and get_methods :: "luqum \<Rightarrow> node list \<Rightarrow> exn + LuceneField list" where
  "get_method L (Word p v) = Inr (One (parsing_word p v))"
| "get_method L (Phrase p v) = Inr (One (parsing_phrase p v))"
| "get_method L (SearchField p nm e) =
     (case get_method L e of
        Inl x \<Rightarrow> Inl x
      | Inr (Many fs) \<Rightarrow> Inl AttributeError
      | Inr (One new_field) \<Rightarrow>
          Inr (One \<lparr>pos = p, name = nm, ftype = ftype new_field,
                    operator = operator new_field, fvalue = fvalue new_field\<rparr>))"
| "get_method L (FieldGroup p e) =
     Inr (One \<lparr>pos = p, name = [], ftype = FIELD_GROUP, operator = FIELD_GROUP_OPERATOR,
               fvalue = py ''('' @ str_node L e @ py '')''\<rparr>)"
| "get_method L (Group p cs) =
     (case get_methods L cs of Inl x \<Rightarrow> Inl x | Inr fs \<Rightarrow> Inr (Many fs))"
| "get_method L (Range p lo hi include_low include_high) =
     Inr (One \<lparr>pos = p, name = [], ftype = RANGE,
               operator = LOW_CHAR include_low @ HIGH_CHAR include_high,
               fvalue = str_node L (Range p lo hi include_low include_high)\<rparr>)"
| "get_method L (Fuzzy p t) =
     Inr (One \<lparr>pos = p, name = [], ftype = FUZZY, operator = DEFAULT_FIELD_OPERATOR,
               fvalue = str_node L (Fuzzy p t)\<rparr>)"
| "get_method L (Regex p v) =
     Inr (One \<lparr>pos = p, name = [], ftype = REGEX, operator = DEFAULT_FIELD_OPERATOR,
               fvalue = str_node L (Regex p v)\<rparr>)"
| "get_method L (Proximity p t) =
     Inr (One \<lparr>pos = p, name = FULL_TEXT_SEARCH_FIELD_NAME, ftype = PROXIMITY,
               operator = DEFAULT_FIELD_OPERATOR, fvalue = str_node L (Proximity p t)\<rparr>)"
| "get_method L (OrOperation p ops) =
     (case get_methods L ops of Inl x \<Rightarrow> Inl x | Inr fs \<Rightarrow> Inr (Many fs))"
| "get_method L (AndOperation p ops) =
     (case get_methods L ops of Inl x \<Rightarrow> Inl x | Inr fs \<Rightarrow> Inr (Many fs))"
| "get_method L (Not p a) =
     (case get_method L a of
        Inl x \<Rightarrow> Inl x
      | Inr (Many fs) \<Rightarrow> Inl AttributeError
      | Inr (One f) \<Rightarrow>
          Inr (One \<lparr>pos = p, name = FULL_TEXT_SEARCH_FIELD_NAME, ftype = NOT,
                    operator = NOT_OPERATOR, fvalue = fvalue f\<rparr>))"
| "get_method L (Plus p a) =
     (case get_method L a of
        Inl x \<Rightarrow> Inl x
      | Inr (Many fs) \<Rightarrow> Inl AttributeError
      | Inr (One f) \<Rightarrow>
          Inr (One \<lparr>pos = p, name = FULL_TEXT_SEARCH_FIELD_NAME, ftype = PLUS,
                    operator = PLUS_OPERATOR, fvalue = fvalue f\<rparr>))"
| "get_method L (Prohibit p a) =
     (case get_method L a of
        Inl x \<Rightarrow> Inl x
      | Inr (Many fs) \<Rightarrow> Inl AttributeError
      | Inr (One f) \<Rightarrow>
          Inr (One \<lparr>pos = p, name = FULL_TEXT_SEARCH_FIELD_NAME, ftype = PROHIBIT,
                    operator = PROHIBIT_OPERATOR, fvalue = fvalue f\<rparr>))"
| "get_method L (UnknownOperation p ops) = Inl UnknownLuceneOperatorException"
| "get_method L (Boost p e) = Inl AttributeError"
| "get_methods L [] = Inr []"
| "get_methods L (c # cs) =
     (case get_method L c of
        Inl x \<Rightarrow> Inl x
      | Inr children_fields \<Rightarrow>
          (case get_methods L cs of
             Inl x \<Rightarrow> Inl x
           | Inr fs \<Rightarrow> Inr (fields_of children_fields @ fs)))"

text \<open>
  \<open>str_nat\<close> is the decimal rendering of the counter in the f-string
  \<^verbatim>\<open>f"{name}({number})"\<close>.
\<close>

function str_nat :: "nat \<Rightarrow> pystr" where
  "str_nat n = (if n < 10 then [48 + n] else str_nat (n div 10) @ [48 + n mod 10])"
  by pat_completeness auto
termination
  by (relation "measure id") auto

declare str_nat.simps [simp del]

text \<open>
  \<^verbatim>\<open>Counter(xs).items()\<close>: every distinct element with its number of occurrences,
  in the order of first occurrence.
\<close>

definition Counter_items :: "pystr list \<Rightarrow> (pystr \<times> nat) list" where
  "Counter_items xs = map (\<lambda>x. (x, count_list xs x)) (rev (remdups (rev xs)))"

text \<open>
  The inner loop of \<open>parsing\<close>: every field whose name equals \<open>nm\<close> at the moment
  it is visited is renamed to \<open>nm(number)\<close>, and the counter goes up.
\<close>

fun rename :: "pystr \<Rightarrow> nat \<Rightarrow> LuceneField list \<Rightarrow> LuceneField list" where
  "rename nm number [] = []"
| "rename nm number (f # fs) =
     (if name f = nm
      then f\<lparr>name := nm @ py ''('' @ str_nat number @ py '')''\<rparr> # rename nm (number + 1) fs
      else f # rename nm number fs)"

text \<open>
  The outer loop: the names and their counts are taken once, before any renaming;
  the fields are then updated in place, name after name.
\<close>

definition rename_duplicates :: "LuceneField list \<Rightarrow> LuceneField list" where
  "rename_duplicates flds =
     foldl (\<lambda>fs (nm, cnt). if cnt > 1 then rename nm 1 fs else fs) flds
       (Counter_items (map name flds))"

definition parsing :: "luqum \<Rightarrow> pystr \<Rightarrow> exn + LuceneField list" where
  "parsing L keyword =
     (case parse L keyword of
        Inl x \<Rightarrow> Inl x
      | Inr tree \<Rightarrow>
          (case get_method L tree of
             Inl x \<Rightarrow> Inl x
           | Inr (Many flds) \<Rightarrow> Inr (rename_duplicates flds)
           | Inr (One f) \<Rightarrow> Inr [f]))"

section \<open>Inspectors\<close>

text \<open>
  The message of an inspector class is a lazily translated string; the classes'
  messages are pairwise different, and each is a constructor here. \<open>NO_MESSAGE\<close>
  is the default \<^verbatim>\<open>message = ""\<close> of an \<open>InspectResult\<close>.
\<close>

datatype message =
    NO_MESSAGE
  | CHINESE_PUNCTUATION
  | ILLEGAL_RANGE_SYNTAX
  | ILLEGAL_CHARACTER
  | ILLEGAL_COLON
  | ILLEGAL_BRACKET
  | UNKNOWN_OPERATOR
  | UNKNOWN_ERROR

record InspectResult =
  is_legal :: bool
  message :: message

text \<open>The state of a freshly constructed inspector, and \<^verbatim>\<open>set_illegal\<close>.\<close>

definition new_result :: InspectResult where
  "new_result = \<lparr>is_legal = True, message = NO_MESSAGE\<rparr>"

definition set_illegal :: "message \<Rightarrow> InspectResult \<Rightarrow> InspectResult" where
  "set_illegal syntax_error_message r = r\<lparr>is_legal := False, message := syntax_error_message\<rparr>"

text \<open>
  An inspector is constructed with a keyword, and \<^verbatim>\<open>inspect()\<close> either returns,
  leaving a keyword and a result in the object, or raises.
\<close>

type_synonym inspector = "luqum \<Rightarrow> pystr \<Rightarrow> exn + pystr \<times> InspectResult"

subsection \<open>Regular expressions\<close>

text \<open>
  The module's regular expressions are matched by functions written for each
  pattern. A dot matches every character but the line feed (code point 10).
  \<open>finditer\<close> is \<^verbatim>\<open>re.finditer\<close> for a pattern that never matches the empty string:
  \<open>m\<close> gives the length of the match that starts at the head of its argument, the
  scan resumes behind a match, and the result lists \<^verbatim>\<open>(m.start(), m.end())\<close>.
\<close>

function finditer :: "(pystr \<Rightarrow> nat option) \<Rightarrow> nat \<Rightarrow> pystr \<Rightarrow> (nat \<times> nat) list" where
  "finditer m i [] = []"
| "finditer m i (c # cs) =
     (case m (c # cs) of
        None \<Rightarrow> finditer m (i + 1) cs
      | Some n \<Rightarrow> (i, i + n) # finditer m (i + n) (drop (n - 1) cs))"
  by pat_completeness auto
termination
  by (relation "measure (\<lambda>(m, i, s). length s)") auto

text \<open>
  \<open>lazy_until t\<close> matches \<^verbatim>\<open>.*?t\<close> for a character \<open>t\<close> and returns the number of
  characters before \<open>t\<close>.
\<close>

fun lazy_until :: "nat \<Rightarrow> pystr \<Rightarrow> nat option" where
  "lazy_until t [] = None"
| "lazy_until t (c # cs) =
     (if c = t then Some 0 else if c = 10 then None else map_option Suc (lazy_until t cs))"

text \<open>
  \<open>chinese_punctuation_re\<close> matches the pattern of the same name: a left double
  quotation mark (code point 8220), \<^verbatim>\<open>.*?\<close>, and a right double quotation mark
  (code point 8221).
\<close>

fun chinese_punctuation_re :: "pystr \<Rightarrow> nat option" where
  "chinese_punctuation_re [] = None"
| "chinese_punctuation_re (c # cs) =
     (if c = 8220 then map_option (\<lambda>k. k + 2) (lazy_until 8221 cs) else None)"

text \<open>
  \<open>range_re\<close> matches \<^verbatim>\<open>(\[.*?TO.*?\])\<close>: \<open>lazy_TO\<close> is \<^verbatim>\<open>.*?TO.*?\]\<close>, which takes the
  first \<^verbatim>\<open>TO\<close> after which a \<^verbatim>\<open>]\<close> is found on the same line.
\<close>

fun lazy_TO :: "pystr \<Rightarrow> nat option" where
  "lazy_TO [] = None"
| "lazy_TO (c # cs) =
     (case (if starts_with (py ''TO'') (c # cs)
            then map_option (\<lambda>k. k + 3) (lazy_until 93 (drop 2 (c # cs))) else None) of
        Some n \<Rightarrow> Some n
      | None \<Rightarrow> if c = 10 then None else map_option Suc (lazy_TO cs))"

fun range_re :: "pystr \<Rightarrow> nat option" where
  "range_re [] = None"
| "range_re (c # cs) = (if c = 91 then map_option Suc (lazy_TO cs) else None)"

text \<open>
  \<open>single_range_re\<close> is \<^verbatim>\<open>re.search(r"\[(.*)TO(.*)\]", s)\<close> and returns the two
  groups. Both groups are greedy: \<open>greedy_RBRACKET\<close> is \<^verbatim>\<open>(.*)\]\<close> and \<open>greedy_TO\<close> is
  \<^verbatim>\<open>(.*)TO(.*)\]\<close>; each first tries to take one more character.
\<close>

fun greedy_RBRACKET :: "pystr \<Rightarrow> pystr option" where
  "greedy_RBRACKET [] = None"
| "greedy_RBRACKET (c # cs) =
     (case (if c = 10 then None else greedy_RBRACKET cs) of
        Some g \<Rightarrow> Some (c # g)
      | None \<Rightarrow> if c = 93 then Some [] else None)"

fun greedy_TO :: "pystr \<Rightarrow> (pystr \<times> pystr) option" where
  "greedy_TO [] = None"
| "greedy_TO (c # cs) =
     (case (if c = 10 then None else greedy_TO cs) of
        Some (g1, g2) \<Rightarrow> Some (c # g1, g2)
      | None \<Rightarrow>
          if starts_with (py ''TO'') (c # cs)
          then map_option (Pair []) (greedy_RBRACKET (drop 2 (c # cs))) else None)"

fun single_range_re :: "pystr \<Rightarrow> (pystr \<times> pystr) option" where
  "single_range_re [] = None"
| "single_range_re (c # cs) =
     (case (if c = 91 then greedy_TO cs else None) of
        Some g \<Rightarrow> Some g
      | None \<Rightarrow> single_range_re cs)"

text \<open>
  The two patterns on error messages have the shape
  \<^verbatim>\<open>prefix'(.*)' at position (\d+)\<close>. \<open>at_position\<close> matches \<^verbatim>\<open>' at position (\d+)\<close>
  at the head and returns the digits; \<open>greedy_at_position\<close> is \<^verbatim>\<open>(.*)' at position (\d+)\<close>;
  \<open>search_at_position\<close> is \<^verbatim>\<open>re.search\<close> and returns the groups 1 and 2. The digits
  are the ASCII digits, which is what the parser's \<^verbatim>\<open>%d\<close> formats a position with.
\<close>

definition is_digit :: "nat \<Rightarrow> bool" where
  "is_digit c = (48 \<le> c \<and> c \<le> 57)"

definition at_position :: "pystr \<Rightarrow> pystr option" where
  "at_position s =
     (let lit = 39 # py '' at position '';
          digits = takeWhile is_digit (drop (length lit) s)
      in if starts_with lit s \<and> digits \<noteq> [] then Some digits else None)"

fun greedy_at_position :: "pystr \<Rightarrow> (pystr \<times> pystr) option" where
  "greedy_at_position [] = None"
| "greedy_at_position (c # cs) =
     (case (if c = 10 then None else greedy_at_position cs) of
        Some (g1, g2) \<Rightarrow> Some (c # g1, g2)
      | None \<Rightarrow> map_option (Pair []) (at_position (c # cs)))"

fun search_at_position :: "pystr \<Rightarrow> pystr \<Rightarrow> (pystr \<times> pystr) option" where
  "search_at_position pre [] = None"
| "search_at_position pre (c # cs) =
     (case (if starts_with pre (c # cs)
            then greedy_at_position (drop (length pre) (c # cs)) else None) of
        Some g \<Rightarrow> Some g
      | None \<Rightarrow> search_at_position pre cs)"

definition illegal_character_re :: "pystr \<Rightarrow> (pystr \<times> pystr) option" where
  "illegal_character_re msg = search_at_position (py ''Illegal character '' @ [39]) msg"

definition unexpect_word_re :: "pystr \<Rightarrow> (pystr \<times> pystr) option" where
  "unexpect_word_re msg =
     search_at_position (py ''Syntax error in input : unexpected  '' @ [39]) msg"

definition unexpect_unmatched_re :: pystr where
  "unexpect_unmatched_re =
     py ''Syntax error in input : unexpected end of expression (maybe due to unmatched parenthesis) at the end!''"

text \<open>\<^verbatim>\<open>int(str(match[2]))\<close> on a string of digits.\<close>

definition int_of_digits :: "pystr \<Rightarrow> nat" where
  "int_of_digits ds = foldl (\<lambda>a d. 10 * a + (d - 48)) 0 ds"

text \<open>\<^verbatim>\<open>str.strip()\<close>: the characters for which \<^verbatim>\<open>str.isspace\<close> holds are removed at both ends.\<close>

definition is_space :: "nat \<Rightarrow> bool" where
  "is_space c =
     (c \<in> set [9, 10, 11, 12, 13, 28, 29, 30, 31, 32, 133, 160, 5760, 8232, 8233, 8239,
               8287, 12288] \<or> (8192 \<le> c \<and> c \<le> 8202))"

definition strip :: "pystr \<Rightarrow> pystr" where
  "strip s = rev (dropWhile is_space (rev (dropWhile is_space s)))"

subsection \<open>\<open>BaseInspector\<close>\<close>

text \<open>
  \<^verbatim>\<open>remove_unexpected_character(match)\<close>: cut \<^verbatim>\<open>len(match[1])\<close> characters out of
  the keyword at position \<^verbatim>\<open>int(str(match[2]))\<close>.
\<close>

definition remove_unexpected_character :: "pystr \<Rightarrow> pystr \<times> pystr \<Rightarrow> pystr" where
  "remove_unexpected_character keyword match =
     (let unexpect_word_len = length (fst match);
          position = int_of_digits (snd match)
      in take position keyword @ drop (position + unexpect_word_len) keyword)"

text \<open>
  \<^verbatim>\<open>replace_unexpected_character(pos, char)\<close> is the statement
  \<^verbatim>\<open>self.keyword[pos] = char\<close>. The keyword is a \<^verbatim>\<open>str\<close>, and a \<^verbatim>\<open>str\<close> does not
  support item assignment: the statement raises \<open>TypeError\<close> for every position
  and character.
\<close>

definition replace_unexpected_character :: "pystr \<Rightarrow> nat \<Rightarrow> nat \<Rightarrow> exn + pystr" where
  "replace_unexpected_character keyword position char = Inl TypeError"

subsection \<open>\<open>ChinesePunctuationInspector\<close>\<close>

text \<open>
  The loop over the matches: the opening mark is replaced at \<^verbatim>\<open>m.start()\<close>, the
  closing one at \<^verbatim>\<open>m.end()\<close>, both by the ASCII double quote (code point 34).
\<close>

fun replace_matches :: "pystr \<Rightarrow> (nat \<times> nat) list \<Rightarrow> exn + pystr" where
  "replace_matches keyword [] = Inr keyword"
| "replace_matches keyword ((m_start, m_end) # ms) =
     (case replace_unexpected_character keyword m_start 34 of
        Inl x \<Rightarrow> Inl x
      | Inr keyword1 \<Rightarrow>
          (case replace_unexpected_character keyword1 m_end 34 of
             Inl x \<Rightarrow> Inl x
           | Inr keyword2 \<Rightarrow> replace_matches keyword2 ms))"

definition ChinesePunctuationInspector_inspect :: inspector where
  "ChinesePunctuationInspector_inspect L keyword =
     (let match_groups = finditer chinese_punctuation_re 0 keyword
      in if match_groups = [] then Inr (keyword, new_result)
         else (case replace_matches keyword match_groups of
                 Inl x \<Rightarrow> Inl x
               | Inr keyword' \<Rightarrow> Inr (keyword', set_illegal CHINESE_PUNCTUATION new_result)))"

subsection \<open>\<open>IllegalCharacterInspector\<close>\<close>

definition IllegalCharacterInspector_inspect :: inspector where
  "IllegalCharacterInspector_inspect L keyword =
     (case parse L keyword of
        Inr tree \<Rightarrow> Inr (keyword, new_result)
      | Inl (IllegalCharacterError msg) \<Rightarrow>
          (case illegal_character_re msg of
             Some match \<Rightarrow>
               Inr (remove_unexpected_character keyword match,
                    set_illegal ILLEGAL_CHARACTER new_result)
           | None \<Rightarrow> Inr (keyword, new_result))
      | Inl (ParseSyntaxError msg) \<Rightarrow>
          (case unexpect_word_re msg of
             Some match \<Rightarrow>
               Inr (remove_unexpected_character keyword match,
                    set_illegal ILLEGAL_CHARACTER new_result)
           | None \<Rightarrow> Inr (keyword, new_result))
      | Inl _ \<Rightarrow> Inr (keyword, new_result))"

subsection \<open>\<open>IllegalRangeSyntaxInspector\<close>\<close>

text \<open>
  One round of the loop of \<^verbatim>\<open>resolve(match_groups)\<close> for the index \<open>i\<close>, on the list
  \<open>remain_keyword\<close> of pieces collected so far. The \<^verbatim>\<open>continue\<close> of a range with
  both endpoints leaves the round at once.
\<close>

definition resolve_round ::
  "pystr \<Rightarrow> (nat \<times> nat) list \<Rightarrow> pystr list \<Rightarrow> nat \<Rightarrow> pystr list" where
  "resolve_round keyword match_groups remain_keyword i =
     (let remain1 = remain_keyword @
            [if i = 0 then take (fst (match_groups ! 0)) keyword
             else slice keyword (snd (match_groups ! (i - 1))) (fst (match_groups ! i))];
          rest = (if i = length match_groups - 1
                  then [drop (snd (match_groups ! i)) keyword] else [])
      in case single_range_re
                (slice keyword (fst (match_groups ! i)) (snd (match_groups ! i))) of
           Some (g1, g2) \<Rightarrow>
             (let start = strip g1; end = strip g2
              in if start \<noteq> [] \<and> end \<noteq> [] then remain1
                 else remain1 @
                   [py ''['' @ (if start = [] then py ''*'' else start) @ py '' TO '' @
                    (if end = [] then py ''*'' else end) @ py '']''] @ rest)
         | None \<Rightarrow> remain1 @ rest)"

definition IllegalRangeSyntaxInspector_resolve :: "pystr \<Rightarrow> (nat \<times> nat) list \<Rightarrow> pystr" where
  "IllegalRangeSyntaxInspector_resolve keyword match_groups =
     concat (foldl (resolve_round keyword match_groups) [] [0..<length match_groups])"

definition IllegalRangeSyntaxInspector_inspect :: inspector where
  "IllegalRangeSyntaxInspector_inspect L keyword =
     (case parse L keyword of
        Inl (ParseSyntaxError msg) \<Rightarrow>
          (case unexpect_word_re msg of
             Some match \<Rightarrow>
               if fst match = py ''TO''
               then (let match_groups = finditer range_re 0 keyword
                     in if match_groups = [] then Inr (keyword, new_result)
                        else Inr (IllegalRangeSyntaxInspector_resolve keyword match_groups,
                                  set_illegal ILLEGAL_RANGE_SYNTAX new_result))
               else Inr (keyword, new_result)
           | None \<Rightarrow> Inr (keyword, new_result))
      | _ \<Rightarrow> Inr (keyword, new_result))"

subsection \<open>\<open>IllegalBracketInspector\<close>\<close>

text \<open>
  The scan of the keyword from \<open>index\<close> on, with the deque \<open>s\<close> of pairs (symbol,
  index) in the order they were appended: \<^verbatim>\<open>s[-1]\<close> is \<open>last s\<close>, \<^verbatim>\<open>s[0]\<close> is \<open>hd s\<close>,
  \<^verbatim>\<open>s.pop()\<close> is \<open>butlast s\<close>. The result is the index of the character to cut out,
  or \<open>None\<close> when the scan ends with an empty deque. \<^verbatim>\<open>BRACKET_DICT.get(k, "")\<close>
  equals a symbol exactly when \<open>k\<close> is a key with that value. Reading \<^verbatim>\<open>s[-2]\<close> from
  a deque of one element would raise \<open>IndexError\<close>.
\<close>

fun bracket_scan :: "(nat \<times> nat) list \<Rightarrow> nat \<Rightarrow> pystr \<Rightarrow> exn + nat option" where
  "bracket_scan s index [] = Inr (if s = [] then None else Some (snd (last s)))"
| "bracket_scan s index (symbol # rest) =
     (if symbol \<in> set (map fst BRACKET_DICT)
      then bracket_scan (s @ [(symbol, index)]) (index + 1) rest
      else if symbol \<in> set (map snd BRACKET_DICT)
      then (if s \<noteq> [] \<and> map_of BRACKET_DICT (fst (last s)) = Some symbol
            then bracket_scan (butlast s) (index + 1) rest
            else (let s' = s @ [(symbol, index)]
                  in if map_of BRACKET_DICT (fst (hd s')) = Some (fst (last s'))
                     then (if length s' < 2 then Inl IndexError
                           else Inr (Some (snd (s' ! (length s' - 2)))))
                     else Inr (Some (snd (last s')))))
      else bracket_scan s (index + 1) rest)"

definition IllegalBracketInspector_inspect :: inspector where
  "IllegalBracketInspector_inspect L keyword =
     (case parse L keyword of
        Inl (ParseSyntaxError msg) \<Rightarrow>
          if msg = unexpect_unmatched_re
          then (case bracket_scan [] 0 keyword of
                  Inl x \<Rightarrow> Inl x
                | Inr None \<Rightarrow> Inr (keyword, new_result)
                | Inr (Some i) \<Rightarrow>
                    Inr (take i keyword @ drop (i + 1) keyword,
                         set_illegal ILLEGAL_BRACKET new_result))
          else Inr (keyword, new_result)
      | _ \<Rightarrow> Inr (keyword, new_result))"

subsection \<open>\<open>IllegalColonInspector\<close>\<close>

text \<open>\<^verbatim>\<open>self.keyword[:-1]\<close> is \<open>butlast\<close>, also on the empty string.\<close>

definition IllegalColonInspector_inspect :: inspector where
  "IllegalColonInspector_inspect L keyword =
     (case parse L keyword of
        Inl (ParseSyntaxError msg) \<Rightarrow>
          if msg = unexpect_unmatched_re
          then (if find keyword (py '':'') = int (length keyword) - 1
                then Inr (butlast keyword, set_illegal ILLEGAL_COLON new_result)
                else Inr (keyword, new_result))
          else Inr (keyword, new_result)
      | _ \<Rightarrow> Inr (keyword, new_result))"

subsection \<open>\<open>UnknownOperatorInspector\<close>\<close>

text \<open>
  The handler of \<open>UnknownLuceneOperatorException\<close> parses the keyword once more; an
  exception of that second call leaves \<^verbatim>\<open>inspect()\<close>.
\<close>

definition UnknownOperatorInspector_inspect :: inspector where
  "UnknownOperatorInspector_inspect L keyword =
     (case parse L keyword of
        Inl UnknownLuceneOperatorException \<Rightarrow>
          (case parse L keyword of
             Inl x \<Rightarrow> Inl x
           | Inr tree \<Rightarrow>
               Inr (str_node L (UnknownOperationResolver L tree),
                    set_illegal UNKNOWN_OPERATOR new_result))
      | _ \<Rightarrow> Inr (keyword, new_result))"

subsection \<open>\<open>DefaultInspector\<close>\<close>

definition DefaultInspector_inspect :: inspector where
  "DefaultInspector_inspect L keyword =
     (case parse L keyword of
        Inl x \<Rightarrow> Inr (keyword, set_illegal UNKNOWN_ERROR new_result)
      | Inr tree \<Rightarrow>
          (case parsing L keyword of
             Inl x \<Rightarrow> Inr (keyword, set_illegal UNKNOWN_ERROR new_result)
           | Inr flds \<Rightarrow> Inr (keyword, new_result)))"

section \<open>The repair pipeline: \<open>LuceneSyntaxResolver\<close>\<close>

definition REGISTERED_INSPECTORS :: "inspector list" where
  "REGISTERED_INSPECTORS =
     [ChinesePunctuationInspector_inspect,
      IllegalRangeSyntaxInspector_inspect,
      IllegalCharacterInspector_inspect,
      IllegalColonInspector_inspect,
      IllegalBracketInspector_inspect,
      UnknownOperatorInspector_inspect,
      DefaultInspector_inspect]"

text \<open>
  The loop of \<^verbatim>\<open>LuceneSyntaxResolver.inspect\<close> over the inspector classes: each is
  constructed with the current keyword and run, the keyword is taken back from it,
  and its message is collected when its result is not legal.
\<close>

fun run_inspectors ::
  "luqum \<Rightarrow> inspector list \<Rightarrow> pystr \<Rightarrow> message list \<Rightarrow> exn + pystr \<times> message list" where
  "run_inspectors L [] keyword messages = Inr (keyword, messages)"
| "run_inspectors L (inspector_class # rest) keyword messages =
     (case inspector_class L keyword of
        Inl x \<Rightarrow> Inl x
      | Inr (keyword', result) \<Rightarrow>
          run_inspectors L rest keyword'
            (if \<not> is_legal result then messages @ [message result] else messages))"

text \<open>
  \<open>inspect\<close> returns the keyword and the messages of one pass; the pass is the
  \<^verbatim>\<open>return True\<close> of the source exactly when the list of messages is empty.
\<close>

definition inspect :: "luqum \<Rightarrow> pystr \<Rightarrow> exn + pystr \<times> message list" where
  "inspect L keyword = run_inspectors L REGISTERED_INSPECTORS keyword []"

text \<open>
  The loop of \<open>resolve\<close>, with the number of rounds left: it returns
  \<open>is_resolved\<close>, the keyword and \<^verbatim>\<open>self.messages\<close>.
\<close>

fun resolve_loop ::
  "luqum \<Rightarrow> nat \<Rightarrow> pystr \<Rightarrow> message list \<Rightarrow> exn + bool \<times> pystr \<times> message list" where
  "resolve_loop L 0 keyword messages = Inr (False, keyword, messages)"
| "resolve_loop L (Suc n) keyword messages =
     (case inspect L keyword of
        Inl x \<Rightarrow> Inl x
      | Inr (keyword', ms) \<Rightarrow>
          if ms = [] then Inr (True, keyword', messages)
          else resolve_loop L n keyword' (messages @ ms))"

text \<open>
  The dictionary that \<open>resolve\<close> returns. Its \<^verbatim>\<open>message\<close> joins a Python set with line
  feeds, in an order that the language leaves open: the field is that set.
\<close>

record RepairResult =
  is_legal :: bool
  is_resolved :: bool
  message :: "message set"
  keyword :: pystr

definition resolve :: "luqum \<Rightarrow> pystr \<Rightarrow> exn + RepairResult" where
  "resolve L kw =
     (case resolve_loop L MAX_RESOLVE_TIMES kw [] of
        Inl x \<Rightarrow> Inl x
      | Inr (resolved, kw', msgs) \<Rightarrow>
          (let messages = (if resolved \<and> UNKNOWN_ERROR \<in> set msgs
                           then set msgs - {UNKNOWN_ERROR} else set msgs)
           in Inr \<lparr>is_legal = (messages = {}), is_resolved = resolved,
                   message = messages, keyword = kw'\<rparr>))"

section \<open>An instance of the library for closed examples\<close>

text \<open>
  The results below hold for every instance of the library interface; where a
  result depends on what the parser answers on a text, that answer is a premise.
  For examples that are closed terms, \<open>luqum_examples\<close> is an instance whose parser
  is a finite table: on each listed text it gives the outcome of luqum's grammar
  (a juxtaposition is an \<open>UnknownOperation\<close>; the end of the text where an
  expression is due is the error ``unexpected end of expression''; a \<^verbatim>\<open>TO\<close> where a
  range bound is due is the error ``unexpected 'TO' at position n''), and on every
  other text it gives \<open>OtherException\<close>. The printer writes a tree without the
  surrounding whitespace that luqum's nodes keep, and the resolver turns every
  \<open>UnknownOperation\<close> into an \<open>AndOperation\<close>.
\<close>

fun join :: "pystr \<Rightarrow> pystr list \<Rightarrow> pystr" where
  "join sep [] = []"
| "join sep [x] = x"
| "join sep (x # y # ys) = x @ sep @ join sep (y # ys)"

fun example_str :: "node \<Rightarrow> pystr" where
  "example_str (Word p v) = v"
| "example_str (Phrase p v) = v"
| "example_str (Regex p v) = v"
| "example_str (SearchField p nm e) = nm @ py '':'' @ example_str e"
| "example_str (FieldGroup p e) = py ''('' @ example_str e @ py '')''"
| "example_str (Group p cs) = py ''('' @ join (py '' '') (map example_str cs) @ py '')''"
| "example_str (Range p lo hi il ih) =
     LOW_CHAR il @ example_str lo @ py '' TO '' @ example_str hi @ HIGH_CHAR ih"
| "example_str (Fuzzy p t) = example_str t @ py ''~''"
| "example_str (Proximity p t) = example_str t @ py ''~''"
| "example_str (Boost p e) = example_str e @ py ''^''"
| "example_str (AndOperation p ops) = join (py '' AND '') (map example_str ops)"
| "example_str (OrOperation p ops) = join (py '' OR '') (map example_str ops)"
| "example_str (UnknownOperation p ops) = join (py '' '') (map example_str ops)"
| "example_str (Not p a) = py ''NOT '' @ example_str a"
| "example_str (Plus p a) = py ''+'' @ example_str a"
| "example_str (Prohibit p a) = py ''-'' @ example_str a"

fun example_resolver :: "node \<Rightarrow> node" where
  "example_resolver (Word p v) = Word p v"
| "example_resolver (Phrase p v) = Phrase p v"
| "example_resolver (Regex p v) = Regex p v"
| "example_resolver (SearchField p nm e) = SearchField p nm (example_resolver e)"
| "example_resolver (FieldGroup p e) = FieldGroup p (example_resolver e)"
| "example_resolver (Group p cs) = Group p (map example_resolver cs)"
| "example_resolver (Range p lo hi il ih) = Range p lo hi il ih"
| "example_resolver (Fuzzy p t) = Fuzzy p t"
| "example_resolver (Proximity p t) = Proximity p t"
| "example_resolver (Boost p e) = Boost p (example_resolver e)"
| "example_resolver (AndOperation p ops) = AndOperation p (map example_resolver ops)"
| "example_resolver (OrOperation p ops) = OrOperation p (map example_resolver ops)"
| "example_resolver (UnknownOperation p ops) = AndOperation p (map example_resolver ops)"
| "example_resolver (Not p a) = Not p (example_resolver a)"
| "example_resolver (Plus p a) = Plus p (example_resolver a)"
| "example_resolver (Prohibit p a) = Prohibit p (example_resolver a)"

text \<open>
  The message of the library's error for an unexpected token \<open>tok\<close> at position \<open>n\<close>:
  \<^verbatim>\<open>"Syntax error in input : unexpected  '%s' at position %d!"\<close>.
\<close>

definition unexpected_message :: "pystr \<Rightarrow> nat \<Rightarrow> pystr" where
  "unexpected_message tok n =
     py ''Syntax error in input : unexpected  '' @ [39] @ tok @ [39] @
     py '' at position '' @ str_nat n @ py ''!''"

definition example_table :: "(pystr \<times> (exn + node)) list" where
  "example_table =
     [([], Inl (ParseSyntaxError unexpect_unmatched_re)),
      (py ''foo'', Inr (Word 0 (py ''foo''))),
      (py ''foo:'', Inl (ParseSyntaxError unexpect_unmatched_re)),
      (py ''foo bar'',
         Inr (UnknownOperation 0 [Word 0 (py ''foo''), Word 4 (py ''bar'')])),
      (py ''a AND a AND a'',
         Inr (AndOperation 0 [Word 0 (py ''a''), Word 6 (py ''a''), Word 12 (py ''a'')])),
      (py ''a:1 AND b:'', Inl (ParseSyntaxError unexpect_unmatched_re)),
      (py ''ts: [ TO 100]'',
         Inl (ParseSyntaxError (unexpected_message (py ''TO'') 6))),
      (py ''ts: [* TO 100]'',
         Inr (SearchField 0 (py ''ts'')
                (Range 4 (Word 5 (py ''*'')) (Word 10 (py ''100'')) True True))),
      (py ''a: [1 TO 2] AND b: [ TO 3]'',
         Inl (ParseSyntaxError (unexpected_message (py ''TO'') 21))),
      (py ''((a AND b)'', Inl (ParseSyntaxError unexpect_unmatched_re)),
      (py ''(a AND b)'',
         Inr (Group 0 [AndOperation 1 [Word 1 (py ''a''), Word 7 (py ''b'')]])),
      (py ''NOT (a AND b)'',
         Inr (Not 0 (Group 4 [AndOperation 5 [Word 5 (py ''a''), Word 11 (py ''b'')]]))),
      (py ''NOT (a b)'',
         Inr (Not 0 (Group 4 [UnknownOperation 5 [Word 5 (py ''a''), Word 7 (py ''b'')]])))]"

definition luqum_examples :: luqum where
  "luqum_examples =
     \<lparr>parse = (\<lambda>keyword. case map_of example_table keyword of
                            Some outcome \<Rightarrow> outcome
                          | None \<Rightarrow> Inl OtherException),
      str_node = example_str,
      UnknownOperationResolver = example_resolver\<rparr>"

section \<open>Notions used in the statements\<close>



text \<open>
  The bracket repair in the words of the specification: a scan from left to right
  with a stack of (bracket, index) entries, the top at the head of the list.
  An opening bracket is pushed. A closing bracket pops the top if it matches it,
  and is pushed otherwise; then, if the stack has at least two entries and the new
  top matches the pair of the bottom, the second entry from the top is the
  offending bracket, and otherwise the top is. When the scan ends with a stack
  that is not empty, the offending bracket is the one at the top. The result is
  the index of the offending bracket.
\<close>

definition is_opening :: "nat \<Rightarrow> bool" where
  "is_opening c = (c = 40 \<or> c = 91 \<or> c = 123)"

definition is_closing :: "nat \<Rightarrow> bool" where
  "is_closing c = (c = 41 \<or> c = 93 \<or> c = 125)"

definition is_pair :: "nat \<Rightarrow> nat \<Rightarrow> bool" where
  "is_pair b c = ((b = 40 \<and> c = 41) \<or> (b = 91 \<and> c = 93) \<or> (b = 123 \<and> c = 125))"

fun offending_bracket :: "(nat \<times> nat) list \<Rightarrow> nat \<Rightarrow> pystr \<Rightarrow> nat option" where
  "offending_bracket st i [] = (case st of [] \<Rightarrow> None | entry # below \<Rightarrow> Some (snd entry))"
| "offending_bracket st i (c # cs) =
     (if is_opening c then offending_bracket ((c, i) # st) (i + 1) cs
      else if is_closing c
      then (if st \<noteq> [] \<and> is_pair (fst (hd st)) c then offending_bracket (tl st) (i + 1) cs
            else (let st' = (c, i) # st
                  in if 2 \<le> length st' \<and> is_pair (fst (last st')) c
                     then Some (snd (st' ! 1)) else Some (snd (hd st'))))
      else offending_bracket st (i + 1) cs)"



section \<open>The pipeline: auxiliary facts\<close>

lemma replace_matches_raises: "ms \<noteq> [] \<Longrightarrow> replace_matches kw ms = Inl TypeError"
  by (cases ms) (auto simp: replace_unexpected_character_def)

lemma chinese_inspect_raises:
  "finditer chinese_punctuation_re 0 kw \<noteq> [] \<Longrightarrow>
     ChinesePunctuationInspector_inspect L kw = Inl TypeError"
  by (simp add: ChinesePunctuationInspector_inspect_def Let_def replace_matches_raises)

lemma inspect_raises:
  "finditer chinese_punctuation_re 0 kw \<noteq> [] \<Longrightarrow> inspect L kw = Inl TypeError"
  by (simp add: inspect_def REGISTERED_INSPECTORS_def chinese_inspect_raises)

lemma resolve_raises: "inspect L kw = Inl x \<Longrightarrow> resolve L kw = Inl x"
  by (simp add: resolve_def MAX_RESOLVE_TIMES_def eval_nat_numeral)

text \<open>
  A pass that leaves the keyword as it is and reports something is repeated
  unchanged by every further round.
\<close>

lemma resolve_loop_stuck:
  "inspect L kw = Inr (kw, ms) \<Longrightarrow> ms \<noteq> [] \<Longrightarrow>
     resolve_loop L n kw acc = Inr (False, kw, acc @ concat (replicate n ms))"
  by (induction n arbitrary: acc) auto

lemma resolve_stuck:
  assumes "inspect L kw = Inr (kw, ms)" and "ms \<noteq> []"
  shows "resolve L kw =
           Inr \<lparr>is_legal = False, is_resolved = False, message = set ms, keyword = kw\<rparr>"
proof -
  have "set (concat (replicate MAX_RESOLVE_TIMES ms)) = set ms"
    by (auto simp: MAX_RESOLVE_TIMES_def)
  moreover have "set ms \<noteq> {}" using assms(2) by simp
  ultimately show ?thesis
    using resolve_loop_stuck [OF assms, of MAX_RESOLVE_TIMES "[]"]
    by (simp add: resolve_def MAX_RESOLVE_TIMES_def)
qed

lemma unknown_never_fires:
  "parse L kw \<noteq> Inl UnknownLuceneOperatorException \<Longrightarrow>
     UnknownOperatorInspector_inspect L kw = Inr (kw, new_result)"
  by (auto simp: UnknownOperatorInspector_inspect_def split: sum.splits exn.splits)

lemma inspect_unknown_operation:
  assumes "finditer chinese_punctuation_re 0 kw = []"
    and "parse L kw = Inr (UnknownOperation p ops)"
  shows "inspect L kw = Inr (kw, [UNKNOWN_ERROR])"
  using assms
  by (simp add: inspect_def REGISTERED_INSPECTORS_def ChinesePunctuationInspector_inspect_def
      IllegalRangeSyntaxInspector_inspect_def IllegalCharacterInspector_inspect_def
      IllegalColonInspector_inspect_def IllegalBracketInspector_inspect_def
      UnknownOperatorInspector_inspect_def DefaultInspector_inspect_def parsing_def
      new_result_def set_illegal_def)

lemma parse_example_foo_bar:
  "parse luqum_examples (py ''foo bar'') =
     Inr (UnknownOperation 0 [Word 0 (py ''foo''), Word 4 (py ''bar'')])"
  by (simp add: luqum_examples_def example_table_def py_def)

section \<open>Claims about the repair pipeline\<close>

text \<open>
  Claim C1 says that \<open>repair\<close> returns a result for every query and never raises.
  The code does not: whenever the keyword contains a pair of Chinese quotation
  marks, the first inspector runs into the item assignment on a \<^verbatim>\<open>str\<close>, nothing
  on the way catches the \<open>TypeError\<close>, and \<open>resolve\<close> raises it to its caller,
  whatever the parser library does.
\<close>

theorem repair_raises_TypeError:
  "finditer chinese_punctuation_re 0 kw \<noteq> [] \<Longrightarrow> resolve L kw = Inl TypeError"
  by (rule resolve_raises) (rule inspect_raises)

theorem repair_raises_TypeError_witness:
  "finditer chinese_punctuation_re 0 [8220, 97, 8221] \<noteq> []
   \<and> resolve luqum_examples [8220, 97, 8221] = Inl TypeError"
proof -
  have h: "finditer chinese_punctuation_re 0 [8220, 97, 8221] \<noteq> []" by simp
  show ?thesis using h repair_raises_TypeError [OF h, of luqum_examples] by simp
qed

text \<open>
  Claim C2 says that a juxtaposition such as \<^verbatim>\<open>foo bar\<close> is rewritten to
  \<^verbatim>\<open>foo AND bar\<close> by the \<open>UnknownOperatorInspector\<close>. In the code that inspector
  waits for \<open>UnknownLuceneOperatorException\<close> from the library's parser, which
  returns an \<open>UnknownOperation\<close> node instead of raising; only the field extraction
  raises that exception. So the inspector leaves the keyword alone, the
  \<open>DefaultInspector\<close> reports the unknown error in every round, and the result
  is the unrepaired keyword, neither legal nor resolved.
\<close>

theorem unknown_operation_not_repaired:
  assumes "finditer chinese_punctuation_re 0 kw = []"
    and "parse L kw = Inr (UnknownOperation p ops)"
  shows "UnknownOperatorInspector_inspect L kw = Inr (kw, new_result)
       \<and> resolve L kw = Inr \<lparr>is_legal = False, is_resolved = False,
                              message = {UNKNOWN_ERROR}, keyword = kw\<rparr>"
  using resolve_stuck [OF inspect_unknown_operation [OF assms]]
    unknown_never_fires [of L kw] assms(2)
  by simp

theorem unknown_operation_not_repaired_witness:
  "finditer chinese_punctuation_re 0 (py ''foo bar'') = []
   \<and> parse luqum_examples (py ''foo bar'')
       = Inr (UnknownOperation 0 [Word 0 (py ''foo''), Word 4 (py ''bar'')])
   \<and> UnknownOperatorInspector_inspect luqum_examples (py ''foo bar'')
       = Inr (py ''foo bar'', new_result)
   \<and> resolve luqum_examples (py ''foo bar'')
       = Inr \<lparr>is_legal = False, is_resolved = False, message = {UNKNOWN_ERROR},
               keyword = py ''foo bar''\<rparr>"
proof -
  have a: "finditer chinese_punctuation_re 0 (py ''foo bar'') = []"
    by (simp add: py_def)
  show ?thesis
    using a parse_example_foo_bar
      unknown_operation_not_repaired [OF a parse_example_foo_bar]
    by simp
qed

text \<open>
  Claim C3 says that a pair of Chinese quotation marks is replaced by ASCII quotes
  and that the query \<^verbatim>\<open>name: \<close> followed by \<^verbatim>\<open>bob\<close> in such marks is repaired. In the code the
  replacement is an item assignment on a \<^verbatim>\<open>str\<close>: the inspector raises \<open>TypeError\<close>
  on that query, and so does \<open>resolve\<close>, for every parser library.
\<close>

theorem chinese_quotes_TypeError:
  "ChinesePunctuationInspector_inspect L (py ''name: '' @ [8220] @ py ''bob'' @ [8221])
     = Inl TypeError
   \<and> resolve L (py ''name: '' @ [8220] @ py ''bob'' @ [8221]) = Inl TypeError"
proof -
  have m: "finditer chinese_punctuation_re 0
             (py ''name: '' @ [8220] @ py ''bob'' @ [8221]) \<noteq> []"
    by (simp add: py_def)
  show ?thesis
    using chinese_inspect_raises [OF m] resolve_raises [OF inspect_raises [OF m]] by simp
qed

lemma unexpect_word_re_unmatched: "unexpect_word_re unexpect_unmatched_re = None"
  by (simp add: unexpect_word_re_def unexpect_unmatched_re_def py_def starts_with_def at_position_def)

lemma parse_example_empty:
  "parse luqum_examples [] = Inl (ParseSyntaxError unexpect_unmatched_re)"
  by (simp add: luqum_examples_def example_table_def)

lemma parse_example_colons:
  "parse luqum_examples (py ''a:1 AND b:'') = Inl (ParseSyntaxError unexpect_unmatched_re)"
  by (simp add: luqum_examples_def example_table_def py_def)

lemma inspect_two_colons:
  assumes "parse L (py ''a:1 AND b:'') = Inl (ParseSyntaxError unexpect_unmatched_re)"
  shows "inspect L (py ''a:1 AND b:'') = Inr (py ''a:1 AND b:'', [UNKNOWN_ERROR])"
  using assms
  by (simp add: inspect_def REGISTERED_INSPECTORS_def ChinesePunctuationInspector_inspect_def
      IllegalRangeSyntaxInspector_inspect_def IllegalCharacterInspector_inspect_def
      IllegalColonInspector_inspect_def IllegalBracketInspector_inspect_def
      UnknownOperatorInspector_inspect_def DefaultInspector_inspect_def
      unexpect_word_re_unmatched find_def starts_with_def BRACKET_DICT_def
      new_result_def set_illegal_def py_def)

lemma inspect_empty:
  assumes "parse L [] = Inl (ParseSyntaxError unexpect_unmatched_re)"
  shows "inspect L [] = Inr ([], [ILLEGAL_COLON, UNKNOWN_ERROR])"
  using assms
  by (simp add: inspect_def REGISTERED_INSPECTORS_def ChinesePunctuationInspector_inspect_def
      IllegalRangeSyntaxInspector_inspect_def IllegalCharacterInspector_inspect_def
      IllegalColonInspector_inspect_def IllegalBracketInspector_inspect_def
      UnknownOperatorInspector_inspect_def DefaultInspector_inspect_def
      unexpect_word_re_unmatched find_def 
      new_result_def set_illegal_def py_def)

lemma parse_example_two_ranges:
  "parse luqum_examples (py ''a: [1 TO 2] AND b: [ TO 3]'') =
     Inl (ParseSyntaxError (unexpected_message (py ''TO'') 21))"
  by (simp add: luqum_examples_def example_table_def py_def)

lemma unexpect_word_re_TO_21:
  "unexpect_word_re (unexpected_message (py ''TO'') 21) = Some (py ''TO'', py ''21'')"
  by (simp add: unexpect_word_re_def unexpected_message_def str_nat.simps py_def starts_with_def at_position_def is_digit_def)

lemma finditer_two_ranges:
  "finditer range_re 0 (py ''a: [1 TO 2] AND b: [ TO 3]'') = [(3, 11), (19, 26)]"
  by (simp add: py_def starts_with_def)

lemma resolve_two_ranges:
  "IllegalRangeSyntaxInspector_resolve (py ''a: [1 TO 2] AND b: [ TO 3]'') [(3, 11), (19, 26)]
     = py ''a:  AND b: [* TO 3]''"
  by (simp add: IllegalRangeSyntaxInspector_resolve_def resolve_round_def upt_rec [of 0] upt_rec [of 1]
      slice_def py_def starts_with_def strip_def is_space_def)

text \<open>
  Claim C5 says that the range inspector puts \<^verbatim>\<open>*\<close> for an empty endpoint and
  leaves all other text of the keyword, well-formed ranges included, in place. In
  the code a range with both endpoints takes the \<^verbatim>\<open>continue\<close> of the loop of
  \<open>resolve\<close>, so that it is not appended to the pieces (and, when it is the last
  match, neither is the rest of the keyword). On
  \<^verbatim>\<open>a: [1 TO 2] AND b: [ TO 3]\<close>, where the parser reports the unexpected \<^verbatim>\<open>TO\<close> at
  position 21, the inspector returns \<^verbatim>\<open>a:  AND b: [* TO 3]\<close>: the range
  \<^verbatim>\<open>[1 TO 2]\<close> is lost.
\<close>

theorem well_formed_range_dropped:
  assumes "parse L (py ''a: [1 TO 2] AND b: [ TO 3]'') =
     Inl (ParseSyntaxError (unexpected_message (py ''TO'') 21))"
  shows "IllegalRangeSyntaxInspector_inspect L (py ''a: [1 TO 2] AND b: [ TO 3]'')
           = Inr (py ''a:  AND b: [* TO 3]'', set_illegal ILLEGAL_RANGE_SYNTAX new_result)"
  using assms
  by (simp add: IllegalRangeSyntaxInspector_inspect_def unexpect_word_re_TO_21
      finditer_two_ranges resolve_two_ranges)

theorem well_formed_range_dropped_witness:
  "parse luqum_examples (py ''a: [1 TO 2] AND b: [ TO 3]'') =
     Inl (ParseSyntaxError (unexpected_message (py ''TO'') 21))
   \<and> IllegalRangeSyntaxInspector_inspect luqum_examples (py ''a: [1 TO 2] AND b: [ TO 3]'')
           = Inr (py ''a:  AND b: [* TO 3]'', set_illegal ILLEGAL_RANGE_SYNTAX new_result)"
  using parse_example_two_ranges well_formed_range_dropped [OF parse_example_two_ranges] by simp

text \<open>
  Claim C7 says that the colon inspector drops the trailing colon of every keyword
  that ends in one and fails to parse with the unmatched-parenthesis message. The
  code compares \<^verbatim>\<open>find(":")\<close>, the index of the first colon, with the last index:
  on \<^verbatim>\<open>a:1 AND b:\<close>, which ends in a colon (code point 58), the inspector does
  nothing, no other inspector changes the keyword, and the result is the keyword
  as it was, neither legal nor resolved.
\<close>

theorem trailing_colon_kept:
  assumes "parse L (py ''a:1 AND b:'') = Inl (ParseSyntaxError unexpect_unmatched_re)"
  shows "last (py ''a:1 AND b:'') = 58
       \<and> IllegalColonInspector_inspect L (py ''a:1 AND b:'') = Inr (py ''a:1 AND b:'', new_result)
       \<and> resolve L (py ''a:1 AND b:'')
           = Inr \<lparr>is_legal = False, is_resolved = False, message = {UNKNOWN_ERROR},
                   keyword = py ''a:1 AND b:''\<rparr>"
proof -
  have "IllegalColonInspector_inspect L (py ''a:1 AND b:'') = Inr (py ''a:1 AND b:'', new_result)"
    using assms by (simp add: IllegalColonInspector_inspect_def find_def starts_with_def py_def)
  moreover have "last (py ''a:1 AND b:'') = 58" by (simp add: py_def)
  ultimately show ?thesis using resolve_stuck [OF inspect_two_colons [OF assms]] by simp
qed

theorem trailing_colon_kept_witness:
  "parse luqum_examples (py ''a:1 AND b:'') = Inl (ParseSyntaxError unexpect_unmatched_re)
   \<and> last (py ''a:1 AND b:'') = 58
   \<and> IllegalColonInspector_inspect luqum_examples (py ''a:1 AND b:'') = Inr (py ''a:1 AND b:'', new_result)
   \<and> resolve luqum_examples (py ''a:1 AND b:'')
           = Inr \<lparr>is_legal = False, is_resolved = False, message = {UNKNOWN_ERROR},
                   keyword = py ''a:1 AND b:''\<rparr>"
  using parse_example_colons trailing_colon_kept [OF parse_example_colons] by simp

text \<open>
  Claim C8, as amended: on the empty string, which the parser rejects with the
  error ``unexpected end of expression'', \<open>parsing\<close> raises that error instead of
  returning the empty list, and \<open>resolve\<close> returns a result that is neither legal
  nor resolved, with the empty keyword and the message of the \<open>DefaultInspector\<close>.
\<close>

theorem empty_query_rejected:
  assumes "parse L [] = Inl (ParseSyntaxError unexpect_unmatched_re)"
  shows "parsing L [] = Inl (ParseSyntaxError unexpect_unmatched_re)
       \<and> (\<exists>r. resolve L [] = Inr r \<and> \<not> is_legal r \<and> \<not> is_resolved r
              \<and> keyword r = [] \<and> UNKNOWN_ERROR \<in> message r)"
  using resolve_stuck [OF inspect_empty [OF assms]] assms
  by (simp add: parsing_def)

theorem empty_query_rejected_witness:
  "parse luqum_examples [] = Inl (ParseSyntaxError unexpect_unmatched_re)
   \<and> parsing luqum_examples [] = Inl (ParseSyntaxError unexpect_unmatched_re)
   \<and> (\<exists>r. resolve luqum_examples [] = Inr r \<and> \<not> is_legal r \<and> \<not> is_resolved r
              \<and> keyword r = [] \<and> UNKNOWN_ERROR \<in> message r)"
  using parse_example_empty empty_query_rejected [OF parse_example_empty] by simp

text \<open>
  The claim as stated (the empty list of fields, and \<open>is_legal = true\<close>) fails for a
  parser that rejects the empty string as above.
\<close>

theorem empty_query_counterexample:
  "parsing luqum_examples [] \<noteq> Inr []
   \<and> resolve luqum_examples []
       = Inr \<lparr>is_legal = False, is_resolved = False,
               message = {ILLEGAL_COLON, UNKNOWN_ERROR}, keyword = []\<rparr>"
  using resolve_stuck [OF inspect_empty [OF parse_example_empty]] parse_example_empty
  by (simp add: parsing_def)

lemma frame_chinese:
  "ChinesePunctuationInspector_inspect L kw = Inr (kw', r) \<Longrightarrow> InspectResult.is_legal r \<Longrightarrow> kw' = kw"
  by (auto simp: ChinesePunctuationInspector_inspect_def Let_def new_result_def set_illegal_def
      split: if_splits sum.splits)

lemma frame_range:
  "IllegalRangeSyntaxInspector_inspect L kw = Inr (kw', r) \<Longrightarrow> InspectResult.is_legal r \<Longrightarrow> kw' = kw"
  by (auto simp: IllegalRangeSyntaxInspector_inspect_def Let_def new_result_def set_illegal_def
      split: if_splits sum.splits exn.splits option.splits)

lemma frame_character:
  "IllegalCharacterInspector_inspect L kw = Inr (kw', r) \<Longrightarrow> InspectResult.is_legal r \<Longrightarrow> kw' = kw"
  by (auto simp: IllegalCharacterInspector_inspect_def Let_def new_result_def set_illegal_def
      split: if_splits sum.splits exn.splits option.splits)

lemma frame_colon:
  "IllegalColonInspector_inspect L kw = Inr (kw', r) \<Longrightarrow> InspectResult.is_legal r \<Longrightarrow> kw' = kw"
  by (auto simp: IllegalColonInspector_inspect_def Let_def new_result_def set_illegal_def
      split: if_splits sum.splits exn.splits option.splits)

lemma frame_bracket:
  "IllegalBracketInspector_inspect L kw = Inr (kw', r) \<Longrightarrow> InspectResult.is_legal r \<Longrightarrow> kw' = kw"
  by (auto simp: IllegalBracketInspector_inspect_def Let_def new_result_def set_illegal_def
      split: if_splits sum.splits exn.splits option.splits)

lemma frame_unknown:
  "UnknownOperatorInspector_inspect L kw = Inr (kw', r) \<Longrightarrow> InspectResult.is_legal r \<Longrightarrow> kw' = kw"
  by (auto simp: UnknownOperatorInspector_inspect_def Let_def new_result_def set_illegal_def
      split: if_splits sum.splits exn.splits option.splits)

lemma frame_default:
  "DefaultInspector_inspect L kw = Inr (kw', r) \<Longrightarrow> kw' = kw"
  by (auto simp: DefaultInspector_inspect_def Let_def new_result_def set_illegal_def
      split: if_splits sum.splits exn.splits option.splits)

lemma frame_registered:
  assumes "I \<in> set REGISTERED_INSPECTORS" and "I L kw = Inr (kw', r)"
    and "InspectResult.is_legal r"
  shows "kw' = kw"
  using assms frame_chinese frame_range frame_character frame_colon frame_bracket
    frame_unknown frame_default
  unfolding REGISTERED_INSPECTORS_def by auto

lemma run_inspectors_frame:
  assumes "\<And>I kw kw' r. I \<in> set Is \<Longrightarrow> I L kw = Inr (kw', r) \<Longrightarrow> InspectResult.is_legal r \<Longrightarrow> kw' = kw"
    and "run_inspectors L Is kw ms = Inr (kw', ms')"
  shows "length ms \<le> length ms' \<and> (length ms' = length ms \<longrightarrow> kw' = kw)"
  using assms
proof (induction Is arbitrary: kw ms)
  case Nil
  then show ?case by simp
next
  case (Cons I Is)
  from Cons.prems(2) obtain kw1 r where
    step: "I L kw = Inr (kw1, r)" and
    rest: "run_inspectors L Is kw1
             (if \<not> InspectResult.is_legal r then ms @ [InspectResult.message r] else ms) = Inr (kw', ms')"
    by (auto split: sum.splits)
  have ih: "length (if \<not> InspectResult.is_legal r then ms @ [InspectResult.message r] else ms) \<le> length ms'
          \<and> (length ms' = length (if \<not> InspectResult.is_legal r then ms @ [InspectResult.message r] else ms) \<longrightarrow> kw' = kw1)"
  proof -
    have p: "\<And>J kwa kwb ra. J \<in> set Is \<Longrightarrow> J L kwa = Inr (kwb, ra) \<Longrightarrow>
               InspectResult.is_legal ra \<Longrightarrow> kwb = kwa"
      using Cons.prems(1) by (meson list.set_intros(2))
    show ?thesis by (rule Cons.IH [OF p rest])
  qed
  show ?case
  proof (cases "InspectResult.is_legal r")
    case True
    then have "kw1 = kw" using Cons.prems(1) [of I kw kw1 r] step by simp
    with ih True show ?thesis by simp
  next
    case False
    with ih show ?thesis by auto
  qed
qed

lemma parse_example_foo: "parse luqum_examples (py ''foo'') = Inr (Word 0 (py ''foo''))"
  by (simp add: luqum_examples_def example_table_def py_def)

lemma inspect_example_foo: "inspect luqum_examples (py ''foo'') = Inr (py ''foo'', [])"
  using parse_example_foo
  by (simp add: inspect_def REGISTERED_INSPECTORS_def ChinesePunctuationInspector_inspect_def
      IllegalRangeSyntaxInspector_inspect_def IllegalCharacterInspector_inspect_def
      IllegalColonInspector_inspect_def IllegalBracketInspector_inspect_def
      UnknownOperatorInspector_inspect_def DefaultInspector_inspect_def parsing_def
      new_result_def set_illegal_def py_def)

text \<open>
  Claim C9: whenever an inspector of the pipeline returns with its result still
  legal, its keyword is the keyword it was constructed with; hence a pass of the
  pipeline that collects no message returns the keyword it started from. The
  keyword is changed only by an inspector step that also records its diagnostic.
\<close>

theorem keyword_changes_only_with_diagnostic:
  "(I \<in> set REGISTERED_INSPECTORS \<longrightarrow> I L kw = Inr (kw', r) \<longrightarrow> InspectResult.is_legal r \<longrightarrow> kw' = kw)
   \<and> (inspect L kw = Inr (kw'', []) \<longrightarrow> kw'' = kw)"
proof
  show "I \<in> set REGISTERED_INSPECTORS \<longrightarrow> I L kw = Inr (kw', r) \<longrightarrow> InspectResult.is_legal r \<longrightarrow> kw' = kw"
    using frame_registered by blast
  show "inspect L kw = Inr (kw'', []) \<longrightarrow> kw'' = kw"
  proof
    assume "inspect L kw = Inr (kw'', [])"
    then have "run_inspectors L REGISTERED_INSPECTORS kw [] = Inr (kw'', [])"
      by (simp add: inspect_def)
    from run_inspectors_frame [OF _ this] frame_registered show "kw'' = kw"
      by (metis list.size(3))
  qed
qed

theorem keyword_changes_only_with_diagnostic_witness:
  "IllegalColonInspector_inspect \<in> set REGISTERED_INSPECTORS
   \<and> IllegalColonInspector_inspect luqum_examples (py ''foo'') = Inr (py ''foo'', new_result)
   \<and> InspectResult.is_legal new_result
   \<and> inspect luqum_examples (py ''foo'') = Inr (py ''foo'', [])"
proof -
  have a: "IllegalColonInspector_inspect \<in> set REGISTERED_INSPECTORS"
    by (simp add: REGISTERED_INSPECTORS_def)
  have b: "IllegalColonInspector_inspect luqum_examples (py ''foo'') = Inr (py ''foo'', new_result)"
    using parse_example_foo by (simp add: IllegalColonInspector_inspect_def)
  have c: "InspectResult.is_legal new_result" by (simp add: new_result_def)
  show ?thesis
    using a b c inspect_example_foo
      keyword_changes_only_with_diagnostic [of IllegalColonInspector_inspect luqum_examples
        "py ''foo''" "py ''foo''" new_result "py ''foo''"]
    by simp
qed

section \<open>Claims about the field extraction\<close>









section \<open>The bracket inspector\<close>

lemma keys_opening: "c \<in> set (map fst BRACKET_DICT) \<longleftrightarrow> is_opening c"
  by (auto simp: BRACKET_DICT_def is_opening_def)

lemma values_closing: "c \<in> set (map snd BRACKET_DICT) \<longleftrightarrow> is_closing c"
  by (auto simp: BRACKET_DICT_def is_closing_def)

lemma get_matches: "map_of BRACKET_DICT b = Some c \<longleftrightarrow> is_pair b c"
  by (auto simp: BRACKET_DICT_def is_pair_def)

lemma closing_not_matches: "is_closing c \<Longrightarrow> \<not> is_pair c d"
  by (auto simp: is_closing_def is_pair_def)

lemma bracket_scan_Cons:
  "bracket_scan s i (c # rest) =
     (if is_opening c then bracket_scan (s @ [(c, i)]) (i + 1) rest
      else if is_closing c
      then (if s \<noteq> [] \<and> is_pair (fst (last s)) c then bracket_scan (butlast s) (i + 1) rest
            else (let s' = s @ [(c, i)]
                  in if is_pair (fst (hd s')) (fst (last s'))
                     then (if length s' < 2 then Inl IndexError
                           else Inr (Some (snd (s' ! (length s' - 2)))))
                     else Inr (Some (snd (last s')))))
      else bracket_scan s (i + 1) rest)"
  by (simp only: bracket_scan.simps keys_opening values_closing get_matches)

lemma bracket_scan_offending:
  "bracket_scan (rev st) i cs = Inr (offending_bracket st i cs)"
proof (induction cs arbitrary: st i)
  case Nil
  show ?case by (cases st) (simp_all add: last_rev)
next
  case (Cons c cs)
  show ?case
  proof (cases "is_opening c")
    case True
    then show ?thesis using Cons.IH [of "(c, i) # st" "i + 1"] by (simp add: bracket_scan_Cons del: bracket_scan.simps(2))
  next
    case no: False
    show ?thesis
    proof (cases "is_closing c")
      case False
      with no show ?thesis using Cons.IH [of st "i + 1"]
        by (simp add: bracket_scan_Cons del: bracket_scan.simps(2))
    next
      case cl: True
      show ?thesis
      proof (cases st)
        case Nil
        with no cl show ?thesis
          by (simp add: bracket_scan_Cons closing_not_matches del: bracket_scan.simps(2))
      next
        case (Cons entry below)
        show ?thesis
        proof (cases "is_pair (fst entry) c")
          case True
          with no cl Cons show ?thesis using Cons.IH [of below "i + 1"]
            by (simp add: bracket_scan_Cons del: bracket_scan.simps(2))
        next
          case False
          have hd: "hd (rev below @ [entry, (c, i)]) = last (entry # below)"
            by (cases below rule: rev_cases) (simp_all add: hd_append)
          have nth: "(rev below @ [entry, (c, i)]) ! length below = entry"
            by (simp add: nth_append)
          from False no cl Cons hd nth show ?thesis
            by (simp add: bracket_scan_Cons Let_def del: bracket_scan.simps(2))
        qed
      qed
    qed
  qed
qed


lemma bracket_inspector_scan:
  assumes "parse L kw = Inl (ParseSyntaxError unexpect_unmatched_re)"
  shows "IllegalBracketInspector_inspect L kw =
           (case offending_bracket [] 0 kw of
              None \<Rightarrow> Inr (kw, new_result)
            | Some i \<Rightarrow> Inr (take i kw @ drop (i + 1) kw, set_illegal ILLEGAL_BRACKET new_result))"
  using assms bracket_scan_offending [of "[]" 0 kw]
  by (simp add: IllegalBracketInspector_inspect_def split: option.splits)

lemma parse_example_open_paren:
  "parse luqum_examples (py ''((a AND b)'') = Inl (ParseSyntaxError unexpect_unmatched_re)"
  by (simp add: luqum_examples_def example_table_def py_def)

lemma parse_example_group:
  "parse luqum_examples (py ''(a AND b)'') =
     Inr (Group 0 [AndOperation 1 [Word 1 (py ''a''), Word 7 (py ''b'')]])"
  by (simp add: luqum_examples_def example_table_def py_def)

lemma offending_example: "offending_bracket [] 0 (py ''((a AND b)'') = Some 0"
  by (simp add: py_def is_opening_def is_closing_def is_pair_def)

lemma bracket_example:
  "IllegalBracketInspector_inspect luqum_examples (py ''((a AND b)'')
     = Inr (py ''(a AND b)'', set_illegal ILLEGAL_BRACKET new_result)"
  using bracket_inspector_scan [OF parse_example_open_paren] offending_example
  by (simp add: py_def)



section \<open>The renaming of duplicate names\<close>








lemma count_list_pos: "x \<in> set xs \<Longrightarrow> 0 < count_list xs x"
  by (induction xs) auto























section \<open>The scenarios of the specification that the code meets\<close>

text \<open>
  With the outcomes of the parser as tabulated in \<open>luqum_examples\<close>, three of the
  scenarios of the specification come out as it says: the trailing colon of
  \<^verbatim>\<open>foo:\<close> is dropped, the empty bound of \<^verbatim>\<open>ts: [ TO 100]\<close> becomes \<^verbatim>\<open>*\<close>, and
  \<^verbatim>\<open>((a AND b)\<close> loses one parenthesis. Each is repaired in the first round and
  found clean in the second, so that the result is resolved, and not legal because
  a diagnostic was recorded.
\<close>

lemma resolve_second_round:
  assumes "inspect L kw = Inr (kw', ms)" and "ms \<noteq> []" and "inspect L kw' = Inr (kw'', [])"
  shows "resolve L kw =
           Inr \<lparr>is_legal = (set ms \<subseteq> {UNKNOWN_ERROR}), is_resolved = True,
                 message = set ms - {UNKNOWN_ERROR}, keyword = kw''\<rparr>"
proof -
  have loop: "resolve_loop L MAX_RESOLVE_TIMES kw [] = Inr (True, kw'', ms)"
    using assms by (simp add: MAX_RESOLVE_TIMES_def eval_nat_numeral)
  have "UNKNOWN_ERROR \<notin> set ms \<Longrightarrow> \<not> set ms \<subseteq> {UNKNOWN_ERROR}"
    using assms(2) by (cases ms) auto
  then show ?thesis using loop by (auto simp: resolve_def)
qed

lemma parse_example_foo_colon:
  "parse luqum_examples (py ''foo:'') = Inl (ParseSyntaxError unexpect_unmatched_re)"
  by (simp add: luqum_examples_def example_table_def py_def)

lemma inspect_example_foo_colon:
  "inspect luqum_examples (py ''foo:'') = Inr (py ''foo'', [ILLEGAL_COLON])"
  using parse_example_foo_colon parse_example_foo
  by (simp add: inspect_def REGISTERED_INSPECTORS_def ChinesePunctuationInspector_inspect_def
      IllegalRangeSyntaxInspector_inspect_def IllegalCharacterInspector_inspect_def
      IllegalColonInspector_inspect_def IllegalBracketInspector_inspect_def
      UnknownOperatorInspector_inspect_def DefaultInspector_inspect_def parsing_def
      unexpect_word_re_unmatched find_def starts_with_def new_result_def set_illegal_def py_def)

lemma repair_example_trailing_colon:
  "resolve luqum_examples (py ''foo:'') =
     Inr \<lparr>is_legal = False, is_resolved = True, message = {ILLEGAL_COLON},
           keyword = py ''foo''\<rparr>"
  using resolve_second_round [OF inspect_example_foo_colon _ inspect_example_foo] by simp

lemma parse_example_range:
  "parse luqum_examples (py ''ts: [ TO 100]'') =
     Inl (ParseSyntaxError (unexpected_message (py ''TO'') 6))"
  by (simp add: luqum_examples_def example_table_def py_def)

lemma parse_example_range_repaired:
  "parse luqum_examples (py ''ts: [* TO 100]'') =
     Inr (SearchField 0 (py ''ts'')
            (Range 4 (Word 5 (py ''*'')) (Word 10 (py ''100'')) True True))"
  by (simp add: luqum_examples_def example_table_def py_def)

lemma unexpect_word_re_TO_6:
  "unexpect_word_re (unexpected_message (py ''TO'') 6) = Some (py ''TO'', py ''6'')"
  by (simp add: unexpect_word_re_def unexpected_message_def str_nat.simps py_def
      starts_with_def at_position_def is_digit_def)

lemma range_example:
  "IllegalRangeSyntaxInspector_inspect luqum_examples (py ''ts: [ TO 100]'')
     = Inr (py ''ts: [* TO 100]'', set_illegal ILLEGAL_RANGE_SYNTAX new_result)"
proof -
  have f: "finditer range_re 0 (py ''ts: [ TO 100]'') = [(4, 13)]"
    by (simp add: py_def starts_with_def)
  have r: "IllegalRangeSyntaxInspector_resolve (py ''ts: [ TO 100]'') [(4, 13)]
             = py ''ts: [* TO 100]''"
    by (simp add: IllegalRangeSyntaxInspector_resolve_def resolve_round_def
        slice_def py_def starts_with_def strip_def is_space_def)
  show ?thesis
    using parse_example_range
    by (simp add: IllegalRangeSyntaxInspector_inspect_def unexpect_word_re_TO_6 f r)
qed

lemma inspect_example_range:
  "inspect luqum_examples (py ''ts: [ TO 100]'') = Inr (py ''ts: [* TO 100]'', [ILLEGAL_RANGE_SYNTAX])"
  using parse_example_range_repaired range_example
  by (simp add: inspect_def REGISTERED_INSPECTORS_def ChinesePunctuationInspector_inspect_def
      IllegalCharacterInspector_inspect_def
      IllegalColonInspector_inspect_def IllegalBracketInspector_inspect_def
      UnknownOperatorInspector_inspect_def DefaultInspector_inspect_def parsing_def
      new_result_def set_illegal_def py_def)

lemma inspect_example_range_repaired:
  "inspect luqum_examples (py ''ts: [* TO 100]'') = Inr (py ''ts: [* TO 100]'', [])"
  using parse_example_range_repaired
  by (simp add: inspect_def REGISTERED_INSPECTORS_def ChinesePunctuationInspector_inspect_def
      IllegalRangeSyntaxInspector_inspect_def IllegalCharacterInspector_inspect_def
      IllegalColonInspector_inspect_def IllegalBracketInspector_inspect_def
      UnknownOperatorInspector_inspect_def DefaultInspector_inspect_def parsing_def
      new_result_def set_illegal_def py_def)

lemma repair_example_range:
  "resolve luqum_examples (py ''ts: [ TO 100]'') =
     Inr \<lparr>is_legal = False, is_resolved = True, message = {ILLEGAL_RANGE_SYNTAX},
           keyword = py ''ts: [* TO 100]''\<rparr>"
  using resolve_second_round [OF inspect_example_range _ inspect_example_range_repaired] by simp

lemma inspect_example_brackets:
  "inspect luqum_examples (py ''((a AND b)'') = Inr (py ''(a AND b)'', [ILLEGAL_BRACKET])"
  using parse_example_open_paren parse_example_group bracket_example
  by (simp add: inspect_def REGISTERED_INSPECTORS_def ChinesePunctuationInspector_inspect_def
      IllegalRangeSyntaxInspector_inspect_def IllegalCharacterInspector_inspect_def
      IllegalColonInspector_inspect_def
      UnknownOperatorInspector_inspect_def DefaultInspector_inspect_def parsing_def
      unexpect_word_re_unmatched find_def starts_with_def new_result_def set_illegal_def py_def)

lemma inspect_example_group:
  "inspect luqum_examples (py ''(a AND b)'') = Inr (py ''(a AND b)'', [])"
  using parse_example_group
  by (simp add: inspect_def REGISTERED_INSPECTORS_def ChinesePunctuationInspector_inspect_def
      IllegalRangeSyntaxInspector_inspect_def IllegalCharacterInspector_inspect_def
      IllegalColonInspector_inspect_def IllegalBracketInspector_inspect_def
      UnknownOperatorInspector_inspect_def DefaultInspector_inspect_def parsing_def
      new_result_def set_illegal_def py_def)

lemma repair_example_brackets:
  "resolve luqum_examples (py ''((a AND b)'') =
     Inr \<lparr>is_legal = False, is_resolved = True, message = {ILLEGAL_BRACKET},
           keyword = py ''(a AND b)''\<rparr>"
  using resolve_second_round [OF inspect_example_brackets _ inspect_example_group] by simp

end
